theory Spec2Isabelle
  imports Complex_Main "HOL-Library.Product_Lexorder" "HOL-Library.Word" "HOL-Library.Multiset"
begin

section \<open>Numbers and points\<close>

text \<open>
  The program is TypeScript; its \<^verbatim>\<open>number\<close> is modelled as \<^typ>\<open>real\<close>, so every
  arithmetic operation below is exact, and \<^verbatim>\<open>Math.floor\<close> is the floor of a real. A
  division whose divisor may be zero (the score) gets an explicit result type further
  down. The fields \<^verbatim>\<open>x\<close> and \<^verbatim>\<open>y\<close> of the source's \<^verbatim>\<open>Point\<close> are called \<open>px\<close> and
  \<open>py\<close>. The functions on points work on every extension of the record, so that
  they apply to points that carry an object identity as well.
\<close>

record Point =
  px :: real
  py :: real

text \<open>
  The shape generator compares two points of an array with \<^verbatim>\<open>a !== b\<close>, which on
  objects is a comparison of references. A point object that takes part in it carries
  the identity it was allocated with.
\<close>

record Point_object = Point +
  ident :: nat

record Size =
  width :: real
  height :: real

record Shape =
  points :: "Point_object list"

datatype error = TypeError

section \<open>Segment intersection\<close>




definition intersects :: "real \<Rightarrow> real \<Rightarrow> real \<Rightarrow> real \<Rightarrow> real \<Rightarrow> real \<Rightarrow> real \<Rightarrow> real \<Rightarrow> bool" where
  "intersects a b c d p q r s =
     (let det = (c - a) * (s - q) - (r - p) * (d - b) in
      if det = 0 then False
      else
        let lambda = ((s - q) * (r - a) + (p - r) * (s - b)) / det;
            gamma = ((b - d) * (r - a) + (c - a) * (s - b)) / det
        in 0 < lambda \<and> lambda < 1 \<and> 0 < gamma \<and> gamma < 1)"

section \<open>Geometry kernel\<close>

definition pointComparator :: "'a Point_scheme \<Rightarrow> 'b Point_scheme \<Rightarrow> int" where
  "pointComparator a b =
     (if px a < px b then - 1
      else if px a > px b then 1
      else if py a < py b then - 1
      else if py a > py b then 1
      else 0)"

text \<open>
  \<^verbatim>\<open>Array.prototype.sort(compare)\<close>: the result is a sorted permutation, and the sort is
  stable (ECMAScript 2019). For a comparator that is a total preorder this fixes the
  result, computed here by stable insertion.
\<close>

fun array_insort :: "('a \<Rightarrow> 'a \<Rightarrow> int) \<Rightarrow> 'a \<Rightarrow> 'a list \<Rightarrow> 'a list" where
  "array_insort compare v [] = [v]"
| "array_insort compare v (w # ws) =
     (if compare v w \<le> 0 then v # w # ws else w # array_insort compare v ws)"

definition array_sort :: "('a \<Rightarrow> 'a \<Rightarrow> int) \<Rightarrow> 'a list \<Rightarrow> 'a list" where
  "array_sort compare vs = foldr (array_insort compare) vs []"

text \<open>
  The inner \<^verbatim>\<open>while\<close> loop of both chains of \<^verbatim>\<open>makeHullPresorted\<close>: while the
  array \<open>arr\<close> holds two points or more, pop its last point \<open>q\<close> when the test on \<open>q\<close>, the
  point \<open>r\<close> before it and the candidate \<open>p\<close> succeeds.
\<close>

function hull_pop_while :: "'a Point_scheme \<Rightarrow> 'a Point_scheme list \<Rightarrow> 'a Point_scheme list" where
  "hull_pop_while p arr =
     (if length arr \<ge> 2 then
        let q = arr ! (length arr - 1);
            r = arr ! (length arr - 2)
        in if (px q - px r) * (py p - py r) \<ge> (py q - py r) * (px p - px r)
           then hull_pop_while p (butlast arr)
           else arr
      else arr)"
  by pat_completeness auto
termination
  by (relation "measure (\<lambda>(p, arr). length arr)") auto

declare hull_pop_while.simps [simp del]

text \<open>The outer \<^verbatim>\<open>for\<close> loop of a chain, over the points in the order they are visited.\<close>

fun hull_chain :: "'a Point_scheme list \<Rightarrow> 'a Point_scheme list \<Rightarrow> 'a Point_scheme list" where
  "hull_chain [] arr = arr"
| "hull_chain (p # ps) arr = hull_chain ps (hull_pop_while p arr @ [p])"

definition makeHullPresorted :: "'a Point_scheme list \<Rightarrow> 'a Point_scheme list" where
  "makeHullPresorted pts =
     (if length pts \<le> 1 then pts
      else
        let upperHull = butlast (hull_chain pts []);
            lowerHull = butlast (hull_chain (rev pts) [])
        in if length upperHull = 1 \<and> length lowerHull = 1 \<and>
              px (upperHull ! 0) = px (lowerHull ! 0) \<and>
              py (upperHull ! 0) = py (lowerHull ! 0)
           then upperHull
           else upperHull @ lowerHull)"

text \<open>
  \<^verbatim>\<open>makeLines\<close>: edge \<open>i\<close> joins point \<open>i\<close> to point \<open>i + 1\<close>, and the second end of the
  last edge is overwritten with the first point. On an empty array the overwrite
  indexes \<^verbatim>\<open>lines[-1]\<close>, which is undefined, and raises.
\<close>

fun makeLines :: "'a list \<Rightarrow> error + ('a \<times> 'a) list" where
  "makeLines [] = Inl TypeError"
| "makeLines (start # rest) = Inr (zip (start # rest) (rest @ [start]))"

definition nearBy :: "'a Point_scheme \<Rightarrow> 'b Point_scheme \<Rightarrow> real \<Rightarrow> bool" where
  "nearBy a b rng =
     (let distX = \<bar>px b - px a\<bar>;
          distY = \<bar>py b - py a\<bar>
      in distY < rng \<and> distX < rng)"

section \<open>Shape generator\<close>

text \<open>
  \<^verbatim>\<open>Math.random()\<close> is a source of reals: \<open>rnd i\<close> is the result of the \<open>i\<close>-th call,
  and a function that draws returns the index of the next call with its result.
\<close>

definition makeRandomPoint :: "(nat \<Rightarrow> real) \<Rightarrow> Size \<Rightarrow> nat \<Rightarrow> Point \<times> nat" where
  "makeRandomPoint rnd viewPort i =
     (\<lparr>px = real_of_int \<lfloor>rnd i * (width viewPort - 20)\<rfloor> + 10,
       py = real_of_int \<lfloor>rnd (i + 1) * (height viewPort - 20)\<rfloor> + 10\<rparr>, i + 2)"

text \<open>
  The first loop of \<^verbatim>\<open>makeRandomShape\<close>: \<open>n\<close> more points to push, the next random
  index \<open>i\<close>, and the identity \<open>k\<close> of the next object.
\<close>

fun makeRandomPoints :: "(nat \<Rightarrow> real) \<Rightarrow> Size \<Rightarrow> nat \<Rightarrow> nat \<Rightarrow> nat \<Rightarrow> Point_object list \<times> nat" where
  "makeRandomPoints rnd viewPort 0 i k = ([], i)"
| "makeRandomPoints rnd viewPort (Suc n) i k =
     (let (p, i1) = makeRandomPoint rnd viewPort i;
          (ps, i2) = makeRandomPoints rnd viewPort n i1 (k + 1)
      in (Point.extend p (Point_object.fields k) # ps, i2))"

text \<open>
  \<^verbatim>\<open>array.splice(start, 0, v)\<close>: a negative start counts from the end, and the start
  is clamped to the array.
\<close>

definition splice_insert :: "int \<Rightarrow> 'a \<Rightarrow> 'a list \<Rightarrow> 'a list" where
  "splice_insert start v vs =
     (let len = int (length vs);
          k = (if start < 0 then max (len + start) 0 else min start len)
      in take (nat k) vs @ [v] @ drop (nat k) vs)"

text \<open>
  One pass through the body of \<^verbatim>\<open>makeRandomShape\<close> up to the array \<^verbatim>\<open>points\<close>: the
  random points (objects \<open>0 .. count - 1\<close>), their hull, the two notch points (the two
  objects made by \<^verbatim>\<open>makeRandomPoint\<close>, then the two made by \<^verbatim>\<open>map\<close>) and the two
  insertions.
\<close>

definition shape_points :: "(nat \<Rightarrow> real) \<Rightarrow> Size \<Rightarrow> nat \<Rightarrow> Point_object list \<times> nat" where
  "shape_points rnd viewPort i0 =
     (let count = nat (10 + \<lfloor>rnd i0 * 6\<rfloor>);
          (randomPoints, i1) = makeRandomPoints rnd viewPort count (i0 + 1) 0;
          hull0 = makeHullPresorted (array_sort pointComparator randomPoints);
          innerView = \<lparr>width = width viewPort / 4, height = height viewPort / 4\<rparr>;
          (p0, i2) = makeRandomPoint rnd innerView i1;
          (p1, i3) = makeRandomPoint rnd innerView i2;
          q0 = \<lparr>px = px p0 + width innerView * (75 / 100),
                py = py p0 + height innerView * (75 / 100), ident = count + 2\<rparr>;
          q1 = \<lparr>px = px p1 + width innerView * (125 / 100),
                py = py p1 + height innerView * (125 / 100), ident = count + 3\<rparr>;
          notch = array_sort pointComparator [q0, q1];
          topPoint = notch ! 0;
          bottomPoint = notch ! 1;
          a = \<lfloor>rnd i3 * (real (length hull0) / 2)\<rfloor>;
          b = \<lfloor>rnd (i3 + 1) * (real (length hull0) / 2) + real (length hull0) / 2\<rfloor>;
          hull1 = splice_insert a topPoint hull0;
          hull2 = splice_insert b bottomPoint hull1
      in (hull2, i3 + 2))"

definition lines_intersect :: "('a Point_scheme \<times> 'a Point_scheme) list \<Rightarrow> bool" where
  "lines_intersect lines =
     list_ex (\<lambda>line. list_ex (\<lambda>l.
        intersects (px (fst line)) (py (fst line)) (px (snd line)) (py (snd line))
                   (px (fst l)) (py (fst l)) (px (snd l)) (py (snd l))) lines) lines"

definition points_nearBy :: "Point_object list \<Rightarrow> real \<Rightarrow> bool" where
  "points_nearBy pts rng =
     list_ex (\<lambda>a. list_ex (\<lambda>b. ident a \<noteq> ident b \<and> nearBy a b rng) pts) pts"

text \<open>
  \<^verbatim>\<open>makeRandomShape\<close> restarts itself until both checks pass, with no bound on the
  number of attempts: a run that never passes has no result, which is \<open>None\<close>.
\<close>

partial_function (option) makeRandomShape :: "(nat \<Rightarrow> real) \<Rightarrow> Size \<Rightarrow> nat \<Rightarrow> (error + Shape \<times> nat) option" where
  "makeRandomShape rnd viewPort i =
     (case shape_points rnd viewPort i of
        (pts, i') \<Rightarrow>
          (case makeLines pts of
             Inl e \<Rightarrow> Some (Inl e)
           | Inr lines \<Rightarrow>
               if lines_intersect lines then makeRandomShape rnd viewPort i'
               else if points_nearBy pts (min (width viewPort) (height viewPort) / 10)
               then makeRandomShape rnd viewPort i'
               else Some (Inr (\<lparr>points = pts\<rparr>, i'))))"

declare makeRandomShape.simps [code]

section \<open>Raster renderer\<close>

text \<open>
  A canvas element and its 2D context are handles; what is drawn is the list of calls
  made on a context. Rasterisation is the browser's: the pixel buffers the scoring
  engine reads back are inputs of the step that reads them.
\<close>

datatype canvas_element = CanvasElement nat

datatype canvas_ctx = Context2D canvas_element

datatype canvas_call =
    ClearRect real real real real
  | SetLineWidth real
  | SetLineCap string
  | SetLineJoin string
  | SetStrokeStyle string
  | SetFillStyle string
  | BeginPath
  | MoveTo real real
  | QuadraticCurveTo real real real real
  | ArcFullCircle real real real
  | ClosePath
  | Stroke
  | Fill

definition getLineWidthForCanvasSize :: "Size \<Rightarrow> real" where
  "getLineWidthForCanvasSize canvasViewSize =
     (let m = min (width canvasViewSize) (height canvasViewSize)
      in if m > 1000 then 20 else if m > 500 then 15 else 10)"

text \<open>
  \<^verbatim>\<open>drawShapeToCanvas\<close>. With \<^verbatim>\<open>[start, ...rest] = shape.points\<close> the array walked is
  \<^verbatim>\<open>[start, ...rest, start]\<close>, and \<^verbatim>\<open>points[i + 1] || start\<close> is \<^verbatim>\<open>start\<close> past its end.
  A context that is undefined, or an empty shape (\<^verbatim>\<open>start.x\<close> of undefined), raises.
\<close>

definition drawShapeToCanvas ::
  "canvas_ctx option \<Rightarrow> Size \<Rightarrow> Shape \<Rightarrow> string \<Rightarrow> bool \<Rightarrow> bool \<Rightarrow> error + (canvas_ctx \<times> canvas_call) list" where
  "drawShapeToCanvas ctxOpt canvasViewSize shp color fill clear =
     (case ctxOpt of
        None \<Rightarrow> Inl TypeError
      | Some ctx \<Rightarrow>
          (case points shp of
             [] \<Rightarrow> Inl TypeError
           | start # rest \<Rightarrow>
               let pts = (start # rest) @ [start];
                   curve = (\<lambda>i.
                     let nextPoint = (if i + 1 < length pts then pts ! (i + 1) else start);
                         xc = (px (pts ! i) + px nextPoint) / 2;
                         yc = (py (pts ! i) + py nextPoint) / 2
                     in QuadraticCurveTo (px (pts ! i)) (py (pts ! i)) xc yc)
               in Inr (map (Pair ctx)
                    ((if clear then [ClearRect 0 0 (width canvasViewSize) (height canvasViewSize)] else []) @
                     [SetLineWidth (getLineWidthForCanvasSize canvasViewSize),
                      SetLineCap ''round'',
                      SetStrokeStyle color,
                      SetFillStyle color,
                      BeginPath,
                      MoveTo (px start) (py start)] @
                     map curve [0..<length pts] @
                     [Stroke] @
                     (if fill then [Fill] else [])))))"

text \<open>
  \<^verbatim>\<open>drawPoints\<close>, on a context whose current \<^verbatim>\<open>lineWidth\<close> is \<open>lineWidth\<close>. Its first
  branch reads \<^verbatim>\<open>points[0]\<close> and then \<^verbatim>\<open>b.x\<close>, which raises when the array is empty.
  The arc is always the full circle \<^verbatim>\<open>arc(b.x, b.y, ctx.lineWidth / 2, 0, Math.PI * 2, !0)\<close>.
  In the other branch the loop runs \<open>i\<close> from 1 while \<open>i < length - 2\<close>, and the last
  curve uses the \<open>i\<close> it stopped at, which is \<open>length - 2\<close> as the array has three
  points or more.
\<close>

definition drawPoints :: "canvas_ctx \<Rightarrow> real \<Rightarrow> 'a Point_scheme list \<Rightarrow> error + (canvas_ctx \<times> canvas_call) list" where
  "drawPoints ctx lineWidth pts =
     (if length pts < 3 then
        (case pts of
           [] \<Rightarrow> Inl TypeError
         | b # _ \<Rightarrow>
             Inr (map (Pair ctx)
               [SetFillStyle ''#aaa'', SetStrokeStyle ''#aaa'', SetLineJoin ''round'', SetLineCap ''round'',
                BeginPath, ArcFullCircle (px b) (py b) (lineWidth / 2), ClosePath, Fill]))
      else
        let curve = (\<lambda>i.
              let c = (px (pts ! i) + px (pts ! (i + 1))) / 2;
                  d = (py (pts ! i) + py (pts ! (i + 1))) / 2
              in QuadraticCurveTo (px (pts ! i)) (py (pts ! i)) c d);
            i = length pts - 2
        in Inr (map (Pair ctx)
             ([SetFillStyle ''#aaa'', SetStrokeStyle ''#aaa'', SetLineJoin ''round'', SetLineCap ''round'',
               BeginPath, MoveTo (px (pts ! 0)) (py (pts ! 0))] @
              map curve [1..<length pts - 2] @
              [QuadraticCurveTo (px (pts ! i)) (py (pts ! i)) (px (pts ! (i + 1))) (py (pts ! (i + 1))),
               Stroke])))"

section \<open>Scoring engine\<close>

text \<open>
  The result of a division of two \<^verbatim>\<open>number\<close>s, where the source may divide by zero:
  JavaScript does not raise, it returns \<^verbatim>\<open>Infinity\<close>, \<^verbatim>\<open>-Infinity\<close> or \<^verbatim>\<open>NaN\<close>.
  The divisors of this program are sums of non-negative counters, so a zero divisor is
  always \<^verbatim>\<open>+0\<close> and the sign of the result is the sign of the dividend.
\<close>

datatype js_number = Finite real | PosInfinity | NegInfinity | NaN

definition js_div :: "real \<Rightarrow> real \<Rightarrow> js_number" where
  "js_div n d =
     (if d = 0 then (if 0 < n then PosInfinity else if n < 0 then NegInfinity else NaN)
      else Finite (n / d))"

text \<open>
  Pixel buffers are the \<^verbatim>\<open>data\<close> of an \<^verbatim>\<open>ImageData\<close>: a \<^verbatim>\<open>Uint8ClampedArray\<close> of
  RGBA bytes. Reading past the end gives \<^verbatim>\<open>undefined\<close>, here \<open>None\<close>, which is
  \<^verbatim>\<open>===\<close> to no byte.
\<close>

type_synonym pixel_data = "8 word list"

definition read_pixel :: "pixel_data \<Rightarrow> nat \<Rightarrow> 8 word option" where
  "read_pixel data i = (if i < length data then Some (data ! i) else None)"

definition gray :: "8 word" where
  "gray = 170"

text \<open>The overfill loop of \<^verbatim>\<open>end_game\<close>: \<^verbatim>\<open>for (let i = 0; i < pixels.length; i += 4)\<close>.\<close>

function overfill_loop :: "pixel_data \<Rightarrow> nat \<Rightarrow> nat \<Rightarrow> nat" where
  "overfill_loop pixels i pixelsOverfilled =
     (if i < length pixels then
        if read_pixel pixels i = Some gray then overfill_loop pixels (i + 4) (pixelsOverfilled + 1)
        else overfill_loop pixels (i + 4) pixelsOverfilled
      else pixelsOverfilled)"
  by pat_completeness auto
termination
  by (relation "measure (\<lambda>(pixels, i, n). length pixels - i)") auto

declare overfill_loop.simps [simp del]

text \<open>
  The fill/underfill loop of \<^verbatim>\<open>end_game\<close>, over \<^verbatim>\<open>fillData\<close> (the mask surface) and
  \<^verbatim>\<open>drawData\<close> (the background stroke layer), with its two counters.
\<close>

function fill_loop :: "pixel_data \<Rightarrow> pixel_data \<Rightarrow> nat \<Rightarrow> nat \<Rightarrow> nat \<Rightarrow> nat \<times> nat" where
  "fill_loop fillData drawData i pixelsFilled pixelsUnderFilled =
     (if i < length fillData then
        if read_pixel fillData i \<noteq> Some 255 then
          fill_loop fillData drawData (i + 4) pixelsFilled pixelsUnderFilled
        else if read_pixel drawData i = Some gray then
          fill_loop fillData drawData (i + 4) (pixelsFilled + 1) pixelsUnderFilled
        else
          fill_loop fillData drawData (i + 4) pixelsFilled (pixelsUnderFilled + 1)
      else (pixelsFilled, pixelsUnderFilled))"
  by pat_completeness auto
termination
  by (relation "measure (\<lambda>(fillData, drawData, i, f, u). length fillData - i)") auto

declare fill_loop.simps [simp del]

text \<open>
  The score expression, written twice in the source with the same operands: in
  \<^verbatim>\<open>end_game\<close> over the local counters and in \<^verbatim>\<open>view\<close> over the model's fields.
\<close>

definition score :: "nat \<Rightarrow> nat \<Rightarrow> nat \<Rightarrow> js_number" where
  "score pixelsFilled pixelsOverfilled pixelsUnderFilled =
     js_div (100 * real pixelsFilled - real pixelsOverfilled)
            (real pixelsFilled + real pixelsUnderFilled)"

text \<open>
  \<^verbatim>\<open>Number.prototype.toFixed(2)\<close>, as ECMAScript defines it: a value that is not finite is
  printed by name; otherwise the sign, then the integer \<open>n\<close> closest to \<open>100 * x\<close> (the
  larger one on a tie) printed in decimal with a point before its last two digits.
  From \<open>10^21\<close> on the builtin switches to exponent notation, which depends on the
  binary representation: that case is outside this model and gives \<open>None\<close>. The builtin
  raises only for a digit count outside \<open>0..100\<close>, never for \<open>2\<close>.
\<close>

fun digits :: "nat \<Rightarrow> string" where
  "digits n =
     (if n < 10 then [''0123456789'' ! n]
      else digits (n div 10) @ [''0123456789'' ! (n mod 10)])"

declare digits.simps [simp del]

definition toFixed2 :: "js_number \<Rightarrow> string option" where
  "toFixed2 v =
     (case v of
        NaN \<Rightarrow> Some ''NaN''
      | PosInfinity \<Rightarrow> Some ''Infinity''
      | NegInfinity \<Rightarrow> Some ''-Infinity''
      | Finite x0 \<Rightarrow>
          let s = (if x0 < 0 then ''-'' else []);
              x1 = (if x0 < 0 then - x0 else x0)
          in if 10 ^ 21 \<le> x1 then None
             else
               let n = nat \<lfloor>x1 * 100 + 1 / 2\<rfloor>;
                   m0 = digits n;
                   m = (if length m0 \<le> 2 then replicate (3 - length m0) (CHR ''0'') @ m0 else m0);
                   k = length m
               in Some (s @ take (k - 2) m @ ''.'' @ drop (k - 2) m))"

section \<open>Game session state machine\<close>

datatype Page = Home | Game | Game_over

record Model =
  page :: Page
  homeColor :: string
  shape :: Shape
  windowSize :: Size
  canvasSize :: Size
  canvasViewSize :: Size
  shapeDrawAreaSize :: Size
  foregroundCanvasElement :: "canvas_element option"
  backgroundCanvasElement :: "canvas_element option"
  offscreenCanvasElement :: canvas_element
  foregroundCtx :: "canvas_ctx option"
  backgroundCtx :: "canvas_ctx option"
  gameStart :: int
  gameLength :: int
  drawPointBuffer :: "Point list"
  lastDrawnAt :: int
  pixelsFilled :: nat
  pixelsOverfilled :: nat
  pixelsUnderFilled :: nat
  finalUrl :: "string option"
  scoreExplainerOpen :: bool

datatype Canvas_kind = Foreground | Background

datatype Msg =
    Start_game
  | End_game
  | Canvas_mounted Canvas_kind canvas_element
  | Canvas_render
  | Canvas_draw real real
  | Canvas_draw_end
  | Window_resize real real
  | Home_carousel_tick
  | Game_tick
  | Open_score_explainer
  | Dismiss_score_explainer

text \<open>
  What one call of \<^verbatim>\<open>update\<close> reads from outside the model: the results of
  \<^verbatim>\<open>Math.random()\<close> in call order, \<^verbatim>\<open>Date.now()\<close>, \<^verbatim>\<open>window.devicePixelRatio\<close>, the 2D
  context of a canvas (\<^verbatim>\<open>getContext('2d')\<close>, which may be null), the left and top of a
  canvas's bounding rectangle, the three pixel buffers \<^verbatim>\<open>end_game\<close> reads back (after
  the overfill pass; of the background layer; of the mask) and the data URL of the
  composed image.
\<close>

record Env =
  random :: "nat \<Rightarrow> real"
  now :: int
  devicePixelRatio :: real
  getContext2d :: "canvas_element \<Rightarrow> canvas_ctx option"
  boundingClientRect :: "canvas_element \<Rightarrow> real \<times> real"
  overfillImageData :: pixel_data
  drawImageData :: pixel_data
  fillImageData :: pixel_data
  dataURL :: string

text \<open>
  An effect is the second component of what \<^verbatim>\<open>update\<close> returns: a closure the runtime
  calls once, right after the step. It captures values only, so it is modelled by what
  calling it does: the calls it makes on the canvases, or the exception it raises.
\<close>

type_synonym effect = "error + (canvas_ctx \<times> canvas_call) list"

definition init :: "canvas_element \<Rightarrow> Model" where
  "init offscreen =
     \<lparr>page = Home,
      homeColor = ''#000'',
      shape = \<lparr>points = []\<rparr>,
      windowSize = \<lparr>width = 0, height = 0\<rparr>,
      canvasSize = \<lparr>width = 0, height = 0\<rparr>,
      canvasViewSize = \<lparr>width = 0, height = 0\<rparr>,
      shapeDrawAreaSize = \<lparr>width = 0, height = 0\<rparr>,
      foregroundCanvasElement = None,
      backgroundCanvasElement = None,
      offscreenCanvasElement = offscreen,
      foregroundCtx = None,
      backgroundCtx = None,
      gameStart = 0,
      gameLength = 0,
      drawPointBuffer = [],
      lastDrawnAt = 0,
      pixelsFilled = 0,
      pixelsOverfilled = 0,
      pixelsUnderFilled = 0,
      finalUrl = None,
      scoreExplainerOpen = False\<rparr>"

definition show_int :: "int \<Rightarrow> string" where
  "show_int n = (if n < 0 then ''-'' @ digits (nat (- n)) else digits (nat n))"

text \<open>\<^verbatim>\<open>randomBetween(0, 255)\<close> three times, then the template string.\<close>

definition makeRandomColor :: "(nat \<Rightarrow> real) \<Rightarrow> nat \<Rightarrow> string \<times> nat" where
  "makeRandomColor rnd i =
     (let r = 0 + \<lfloor>rnd i * (255 - 0 + 1)\<rfloor>;
          g = 0 + \<lfloor>rnd (i + 1) * (255 - 0 + 1)\<rfloor>;
          b = 0 + \<lfloor>rnd (i + 2) * (255 - 0 + 1)\<rfloor>
      in (''rgb('' @ show_int r @ '','' @ show_int g @ '','' @ show_int b @ '')'', i + 3))"

text \<open>The closure returned by \<^verbatim>\<open>start_game\<close>; it reads both the old and the new model.\<close>

definition start_game_effect :: "Model \<Rightarrow> Model \<Rightarrow> effect" where
  "start_game_effect model newModel =
     (let cleared =
            (case backgroundCtx model of
               None \<Rightarrow> []
             | Some ctx \<Rightarrow>
                 [(ctx, ClearRect 0 0 (width (canvasViewSize model)) (height (canvasViewSize model)))])
      in case drawShapeToCanvas (foregroundCtx newModel) (canvasViewSize newModel) (shape newModel)
                (homeColor newModel) False True of
           Inl e \<Rightarrow> Inl e
         | Inr calls \<Rightarrow> Inr (cleared @ calls))"

text \<open>The closure of \<^verbatim>\<open>canvas_draw\<close> and of \<^verbatim>\<open>canvas_draw_end\<close>: set the line width, draw.\<close>

definition draw_effect :: "canvas_ctx \<Rightarrow> Size \<Rightarrow> Point list \<Rightarrow> effect" where
  "draw_effect ctx viewSize pts =
     (let lineWidth = 2 * getLineWidthForCanvasSize viewSize
      in case drawPoints ctx lineWidth pts of
           Inl e \<Rightarrow> Inl e
         | Inr calls \<Rightarrow> Inr ((ctx, SetLineWidth lineWidth) # calls))"

text \<open>
  \<^verbatim>\<open>update\<close>, one definition per case of its \<^verbatim>\<open>switch\<close>. The result is \<open>None\<close> when
  the step does not return (a shape generation that never passes), \<open>Some (Inl e)\<close> when
  it raises, and otherwise the new model with the effect, if any.
\<close>

type_synonym step_result = "(error + Model \<times> effect option) option"

definition update_start_game :: "Env \<Rightarrow> Model \<Rightarrow> step_result" where
  "update_start_game env model =
     (case makeRandomShape (random env) (shapeDrawAreaSize model) 0 of
        None \<Rightarrow> None
      | Some (Inl e) \<Rightarrow> Some (Inl e)
      | Some (Inr (shp, _)) \<Rightarrow>
          let newModel = model\<lparr>page := Game, gameStart := now env, homeColor := ''#000'',
                               shape := shp, finalUrl := None\<rparr>
          in Some (Inr (newModel, Some (start_game_effect model newModel))))"

text \<open>
  \<^verbatim>\<open>end_game\<close> draws on the offscreen canvas inside the step; of these calls the model
  keeps where they raise (an undefined canvas or context, an empty shape) and what is
  read back. \<open>end_game_score\<close> is the local \<^verbatim>\<open>score\<close> of the step, printed on the image.
\<close>

definition end_game_score :: "Env \<Rightarrow> js_number" where
  "end_game_score env =
     (let pixelsOverfilled = overfill_loop (overfillImageData env) 0 0;
          (pixelsFilled, pixelsUnderFilled) = fill_loop (fillImageData env) (drawImageData env) 0 0 0
      in score pixelsFilled pixelsOverfilled pixelsUnderFilled)"

definition update_end_game :: "Env \<Rightarrow> Model \<Rightarrow> step_result" where
  "update_end_game env model =
     (let gameLength = now env - gameStart model;
          offscreenCtx = getContext2d env (offscreenCanvasElement model)
      in case backgroundCanvasElement model of
           None \<Rightarrow> Some (Inl TypeError)
         | Some backgroundElement \<Rightarrow>
        (case offscreenCtx of
           None \<Rightarrow> Some (Inl TypeError)
         | Some _ \<Rightarrow>
        (case drawShapeToCanvas offscreenCtx (canvasViewSize model) (shape model) ''#000'' True False of
           Inl e \<Rightarrow> Some (Inl e)
         | Inr _ \<Rightarrow>
        let pixelsOverfilled = overfill_loop (overfillImageData env) 0 0
        in
        (case drawShapeToCanvas offscreenCtx (canvasViewSize model) (shape model) ''#fff'' True False of
           Inl e \<Rightarrow> Some (Inl e)
         | Inr _ \<Rightarrow>
        (case backgroundCtx model of
           None \<Rightarrow> Some (Inl TypeError)
         | Some _ \<Rightarrow>
        let (pixelsFilled, pixelsUnderFilled) = fill_loop (fillImageData env) (drawImageData env) 0 0 0
        in
        (case foregroundCanvasElement model of
           None \<Rightarrow> Some (Inl TypeError)
         | Some foregroundElement \<Rightarrow>
             Some (Inr (model\<lparr>page := Game_over,
                              finalUrl := Some (dataURL env),
                              gameLength := gameLength,
                              pixelsFilled := pixelsFilled,
                              pixelsOverfilled := pixelsOverfilled,
                              pixelsUnderFilled := pixelsUnderFilled\<rparr>, None))))))))"

definition update_window_resize :: "Env \<Rightarrow> real \<Rightarrow> real \<Rightarrow> Model \<Rightarrow> step_result" where
  "update_window_resize env w h model =
     (if page model = Game then Some (Inr (model, None))
      else
        let windowSize' = \<lparr>width = w, height = h\<rparr>;
            framePadding = 20;
            reservedBottom = 70;
            frameWidth = w - framePadding * 2;
            frameHeight = h - framePadding * 2 - reservedBottom;
            widthLarger = (w > h);
            canvasSize' =
              (if widthLarger
               then \<lparr>width = frameWidth,
                     height = min frameHeight (real_of_int \<lfloor>frameWidth / (3 / 2)\<rfloor>)\<rparr>
               else \<lparr>width = min frameWidth (real_of_int \<lfloor>frameHeight / (3 / 2)\<rfloor>),
                     height = frameHeight\<rparr>);
            canvasViewSize' =
              \<lparr>width = width canvasSize' * devicePixelRatio env,
               height = height canvasSize' * devicePixelRatio env\<rparr>;
            shapeDrawAreaSize' =
              \<lparr>width = width canvasViewSize', height = height canvasViewSize' - 60\<rparr>;
            finish = (\<lambda>shp. Some (Inr (model\<lparr>shape := shp, windowSize := windowSize',
                         canvasSize := canvasSize', canvasViewSize := canvasViewSize',
                         shapeDrawAreaSize := shapeDrawAreaSize'\<rparr>, None)))
        in if length (points (shape model)) \<noteq> 0 then finish (shape model)
           else
             (case makeRandomShape (random env) shapeDrawAreaSize' 0 of
                None \<Rightarrow> None
              | Some (Inl e) \<Rightarrow> Some (Inl e)
              | Some (Inr (shp, _)) \<Rightarrow> finish shp))"

definition update_canvas_mounted :: "Env \<Rightarrow> Canvas_kind \<Rightarrow> canvas_element \<Rightarrow> Model \<Rightarrow> step_result" where
  "update_canvas_mounted env kind canvasElement model =
     (let ctx = getContext2d env canvasElement
      in case kind of
           Foreground \<Rightarrow>
             Some (Inr (model\<lparr>foregroundCanvasElement := Some canvasElement, foregroundCtx := ctx\<rparr>, None))
         | Background \<Rightarrow>
             Some (Inr (model\<lparr>backgroundCanvasElement := Some canvasElement, backgroundCtx := ctx\<rparr>, None)))"

text \<open>
  \<^verbatim>\<open>canvas_draw\<close>. With fewer than 5 points buffered the source pushes onto the
  model's own array and returns the same model: the step's result is the model with the
  point appended. The closure captures the old array, so it draws the buffered points
  followed by the new one.
\<close>

definition update_canvas_draw :: "Env \<Rightarrow> real \<Rightarrow> real \<Rightarrow> Model \<Rightarrow> step_result" where
  "update_canvas_draw env windowX windowY model =
     (case backgroundCanvasElement model of
        None \<Rightarrow> Some (Inl TypeError)
      | Some element \<Rightarrow>
          let (left, top') = boundingClientRect env element;
              x0 = (windowX - left) * devicePixelRatio env;
              y0 = (windowY - top') * devicePixelRatio env;
              newPoint = \<lparr>px = x0, py = y0\<rparr>;
              buffer = drawPointBuffer model
          in if length buffer < 5
             then Some (Inr (model\<lparr>drawPointBuffer := buffer @ [newPoint]\<rparr>, None))
             else
               (case backgroundCtx model of
                  None \<Rightarrow> Some (Inr (model, None))
                | Some ctx \<Rightarrow>
                    Some (Inr (model\<lparr>drawPointBuffer := [newPoint]\<rparr>,
                               Some (draw_effect ctx (canvasViewSize model) (buffer @ [newPoint]))))))"

definition update_canvas_draw_end :: "Model \<Rightarrow> step_result" where
  "update_canvas_draw_end model =
     (let buffer = drawPointBuffer model
      in if length buffer = 0 then Some (Inr (model, None))
         else
           (case backgroundCtx model of
              None \<Rightarrow> Some (Inr (model, None))
            | Some ctx \<Rightarrow>
                Some (Inr (model\<lparr>drawPointBuffer := []\<rparr>,
                           Some (draw_effect ctx (canvasViewSize model) buffer)))))"

text \<open>The closure of \<^verbatim>\<open>home_carousel_tick\<close> draws the shape and colour of the old model.\<close>

definition update_home_carousel_tick :: "Env \<Rightarrow> Model \<Rightarrow> step_result" where
  "update_home_carousel_tick env model =
     (let (color, i) = makeRandomColor (random env) 0
      in case makeRandomShape (random env) (shapeDrawAreaSize model) i of
           None \<Rightarrow> None
         | Some (Inl e) \<Rightarrow> Some (Inl e)
         | Some (Inr (shp, _)) \<Rightarrow>
             let newModel = model\<lparr>homeColor := color, shape := shp\<rparr>
             in (case foregroundCtx model of
                   None \<Rightarrow> Some (Inr (newModel, None))
                 | Some ctx \<Rightarrow>
                     Some (Inr (newModel,
                       Some (drawShapeToCanvas (Some ctx) (canvasViewSize model) (shape model)
                               (homeColor model) False True)))))"

fun update :: "Env \<Rightarrow> Msg \<Rightarrow> Model \<Rightarrow> step_result" where
  "update env Start_game model = update_start_game env model"
| "update env End_game model = update_end_game env model"
| "update env Open_score_explainer model =
     Some (Inr (model\<lparr>scoreExplainerOpen := (page model = Game_over)\<rparr>, None))"
| "update env Dismiss_score_explainer model =
     Some (Inr (model\<lparr>scoreExplainerOpen := False\<rparr>, None))"
| "update env (Window_resize w h) model = update_window_resize env w h model"
| "update env (Canvas_mounted kind canvasElement) model =
     update_canvas_mounted env kind canvasElement model"
| "update env Canvas_render model = Some (Inr (model, None))"
| "update env (Canvas_draw windowX windowY) model = update_canvas_draw env windowX windowY model"
| "update env Canvas_draw_end model = update_canvas_draw_end model"
| "update env Home_carousel_tick model = update_home_carousel_tick env model"
| "update env Game_tick model = Some (Inr (model, None))"

text \<open>The models the program can be in: the initial one, and every one a step returns.\<close>

inductive reachable :: "Model \<Rightarrow> bool" where
  reachable_init: "reachable (init offscreen)"
| reachable_step: "reachable model \<Longrightarrow> update env msg model = Some (Inr (model', eff)) \<Longrightarrow> reachable model'"

text \<open>
  The score shown by \<^verbatim>\<open>view\<close> on the game-over page: the same expression over the
  model's fields, then \<^verbatim>\<open>toFixed(2) + '%'\<close>.
\<close>

definition view_score :: "Model \<Rightarrow> js_number" where
  "view_score model = score (pixelsFilled model) (pixelsOverfilled model) (pixelsUnderFilled model)"

definition view_score_text :: "Model \<Rightarrow> string option" where
  "view_score_text model = map_option (\<lambda>s. s @ ''%'') (toFixed2 (view_score model))"

text \<open>
  A notion of the specification, not of the source: the mask pixels of a mask surface are
  the pixel offsets (multiples of 4 inside the buffer) whose red channel is 255.
\<close>

definition mask_pixels :: "pixel_data \<Rightarrow> nat list" where
  "mask_pixels fillData = filter (\<lambda>i. i mod 4 = 0 \<and> fillData ! i = 255) [0..<length fillData]"

section \<open>Concrete inputs\<close>

text \<open>
  A random source given by its first results, followed by zeros, and the inputs at
  which the theorems below are instantiated.
\<close>

definition random_of :: "real list \<Rightarrow> nat \<Rightarrow> real" where
  "random_of rs i = (if i < length rs then rs ! i else 0)"

definition example_randoms :: "real list" where
  "example_randoms =
     [1/2,
      1/10, 1/10,  9/10, 1/10,  9/10, 9/10,  1/10, 9/10,
      1/2, 1/2,  1/2, 1/2,  1/2, 1/2,  1/2, 1/2,  1/2, 1/2,
      1/2, 1/2,  1/2, 1/2,  1/2, 1/2,  1/2, 1/2,
      3/10, 3/10,  6/10, 6/10,
      2/10, 7/10]"

definition example_viewPort :: Size where
  "example_viewPort = \<lparr>width = 1020, height = 620\<rparr>"

definition example_shape :: Shape where
  "example_shape =
     \<lparr>points =
        [\<lparr>px = 1085 / 4, py = 665 / 4, ident = 15\<rparr>,
         \<lparr>px = 110, py = 70, ident = 0\<rparr>,
         \<lparr>px = 110, py = 550, ident = 3\<rparr>,
         \<lparr>px = 1879 / 4, py = 1139 / 4, ident = 16\<rparr>,
         \<lparr>px = 910, py = 550, ident = 2\<rparr>,
         \<lparr>px = 910, py = 70, ident = 1\<rparr>]\<rparr>"

text \<open>
  An environment in which every canvas has a 2D context, with pixel buffers of three
  pixels: two inside the mask, both coloured, and one coloured outside of it.
\<close>

definition example_env :: Env where
  "example_env =
     \<lparr>random = random_of example_randoms,
      now = 1000,
      devicePixelRatio = 1,
      getContext2d = (\<lambda>element. Some (Context2D element)),
      boundingClientRect = (\<lambda>element. (20, 20)),
      overfillImageData = [0, 0, 0, 255, 0, 0, 0, 255, 170, 170, 170, 255],
      drawImageData = [170, 170, 170, 255, 170, 170, 170, 255, 170, 170, 170, 255],
      fillImageData = [255, 255, 255, 255, 255, 255, 255, 255, 0, 0, 0, 0],
      dataURL = ''data:image/png;base64,''\<rparr>"

text \<open>The same environment, in which the background canvas gives no 2D context.\<close>

definition example_env_no_context :: Env where
  "example_env_no_context =
     example_env\<lparr>getContext2d :=
       (\<lambda>element. if element = CanvasElement 2 then None else Some (Context2D element))\<rparr>"

text \<open>A sequence of steps, as long as each returns a model.\<close>

fun run :: "Env \<Rightarrow> Msg list \<Rightarrow> Model \<Rightarrow> Model option" where
  "run env [] model = Some model"
| "run env (msg # msgs) model =
     (case update env msg model of
        Some (Inr (model', eff)) \<Rightarrow> run env msgs model'
      | _ \<Rightarrow> None)"

definition example_msgs :: "Msg list" where
  "example_msgs =
     [Window_resize 1060 1000,
      Canvas_mounted Foreground (CanvasElement 1),
      Canvas_mounted Background (CanvasElement 2),
      Start_game,
      Canvas_draw 30 30, Canvas_draw 31 31, Canvas_draw 32 32, Canvas_draw 33 33,
      Canvas_draw 34 34]"

text \<open>The model after these steps: a game in progress with five points buffered.\<close>

definition example_model :: Model where
  "example_model =
     \<lparr>page = Game,
      homeColor = ''#000'',
      shape = example_shape,
      windowSize = \<lparr>width = 1060, height = 1000\<rparr>,
      canvasSize = \<lparr>width = 1020, height = 680\<rparr>,
      canvasViewSize = \<lparr>width = 1020, height = 680\<rparr>,
      shapeDrawAreaSize = \<lparr>width = 1020, height = 620\<rparr>,
      foregroundCanvasElement = Some (CanvasElement 1),
      backgroundCanvasElement = Some (CanvasElement 2),
      offscreenCanvasElement = CanvasElement 0,
      foregroundCtx = Some (Context2D (CanvasElement 1)),
      backgroundCtx = Some (Context2D (CanvasElement 2)),
      gameStart = 1000,
      gameLength = 0,
      drawPointBuffer =
        [\<lparr>px = 10, py = 10\<rparr>, \<lparr>px = 11, py = 11\<rparr>, \<lparr>px = 12, py = 12\<rparr>,
         \<lparr>px = 13, py = 13\<rparr>, \<lparr>px = 14, py = 14\<rparr>],
      lastDrawnAt = 0,
      pixelsFilled = 0,
      pixelsOverfilled = 0,
      pixelsUnderFilled = 0,
      finalUrl = None,
      scoreExplainerOpen = False\<rparr>"

definition example_model_no_context :: Model where
  "example_model_no_context = example_model\<lparr>backgroundCtx := None\<rparr>"

section \<open>Convex polygons\<close>







section \<open>Properties of the intersection test\<close>














section \<open>Properties of the convex hull\<close>




























section \<open>Properties of the shape generator\<close>




lemma length_array_insort [simp]: "length (array_insort cmp v vs) = Suc (length vs)"
  by (induction vs) auto



lemma length_splice_insert [simp]: "length (splice_insert start v vs) = Suc (length vs)"
  by (auto simp add: splice_insert_def Let_def)


lemma makeLines_Inr: "makeLines pts = Inr ls \<Longrightarrow> pts \<noteq> []"
  by (cases pts) auto




lemma makeRandomShape_example:
  "makeRandomShape (random_of example_randoms) example_viewPort 0 = Some (Inr (example_shape, 33))"
  by code_simp



section \<open>Properties of the scoring engine\<close>

lemma filter_upt_skip:
  "a \<le> b \<Longrightarrow> (\<And>j. a \<le> j \<Longrightarrow> j < b \<Longrightarrow> \<not> P j) \<Longrightarrow> filter P [a..<n] = filter P [b..<n]"
proof (induction n)
  case 0
  then show ?case by simp
next
  case (Suc n)
  show ?case
  proof (cases "b \<le> n")
    case True
    then show ?thesis using Suc by simp
  next
    case False
    then have "[b..<Suc n] = []" by simp
    moreover have "filter P [a..<Suc n] = []"
      using False Suc.prems by (auto simp: filter_empty_conv)
    ultimately show ?thesis by simp
  qed
qed

lemma filter_upt_step4:
  assumes "i mod 4 = 0" and "i < n"
  shows "filter (\<lambda>j. j mod 4 = 0 \<and> Q j) [i..<n] =
         (if Q i then [i] else []) @ filter (\<lambda>j. j mod 4 = 0 \<and> Q j) [i + 4..<n]"
proof -
  have "[i..<n] = i # [Suc i..<n]"
    using assms(2) by (simp add: upt_conv_Cons)
  moreover have "filter (\<lambda>j. j mod 4 = 0 \<and> Q j) [Suc i..<n] = filter (\<lambda>j. j mod 4 = 0 \<and> Q j) [i + 4..<n]"
  proof (rule filter_upt_skip)
    show "Suc i \<le> i + 4" by simp
  next
    fix j assume "Suc i \<le> j" and "j < i + 4"
    then have "j mod 4 \<noteq> 0" using assms(1) by presburger
    then show "\<not> (j mod 4 = 0 \<and> Q j)" by simp
  qed
  ultimately show ?thesis using assms(1) by simp
qed

lemma fill_loop_count:
  assumes "i mod 4 = 0" and "length drawData = length fillData"
  shows "fill_loop fillData drawData i f u =
     (f + length (filter (\<lambda>j. j mod 4 = 0 \<and> (fillData ! j = 255 \<and> drawData ! j = gray)) [i..<length fillData]),
      u + length (filter (\<lambda>j. j mod 4 = 0 \<and> (fillData ! j = 255 \<and> drawData ! j \<noteq> gray)) [i..<length fillData]))"
  using assms
proof (induction fillData drawData i f u rule: fill_loop.induct)
  case (1 fillData drawData i f u)
  show ?case
  proof (cases "i < length fillData")
    case False
    then show ?thesis by (simp add: fill_loop.simps [of fillData drawData i])
  next
    case True
    have m: "(i + 4) mod 4 = 0" using "1.prems"(1) by presburger
    note st = filter_upt_step4 [OF "1.prems"(1) True]
    show ?thesis
    proof (cases "read_pixel fillData i \<noteq> Some 255")
      case a: True
      then have "fillData ! i \<noteq> 255" using True by (simp add: read_pixel_def)
      then show ?thesis
        using "1.IH"(1) [OF True a m "1.prems"(2)] True a
        by (simp add: fill_loop.simps [of fillData drawData i] st)
    next
      case a: False
      then have fi: "fillData ! i = 255" using True by (simp add: read_pixel_def)
      show ?thesis
      proof (cases "read_pixel drawData i = Some gray")
        case b: True
        then have "drawData ! i = gray" using True "1.prems"(2) by (simp add: read_pixel_def)
        then show ?thesis
          using "1.IH"(2) [OF True a b m "1.prems"(2)] True a b fi
          by (simp add: fill_loop.simps [of fillData drawData i] st)
      next
        case b: False
        then have "drawData ! i \<noteq> gray" using True "1.prems"(2) by (simp add: read_pixel_def)
        then show ?thesis
          using "1.IH"(3) [OF True a b m "1.prems"(2)] True a b fi
          by (simp add: fill_loop.simps [of fillData drawData i] st)
      qed
    qed
  qed
qed

lemma length_filter_split:
  "length (filter P xs) = length (filter (\<lambda>x. P x \<and> Q x) xs) + length (filter (\<lambda>x. P x \<and> \<not> Q x) xs)"
  by (induction xs) auto

text \<open>
  Claim C3. In the fill/underfill pass every mask pixel (red channel of the mask surface
  equal to 255) is counted exactly once: in \<open>pixelsFilled\<close> when the stroke layer has the
  marker colour at that pixel, in \<open>pixelsUnderFilled\<close> otherwise. So for buffers of equal
  length the two counters add up to the number of mask pixels, whatever the stroke layer
  holds.
\<close>

theorem C3_fill_underfill_partition:
  assumes "length drawData = length fillData"
    and "fill_loop fillData drawData 0 0 0 = (filled, underFilled)"
  shows "filled = length (filter (\<lambda>i. drawData ! i = gray) (mask_pixels fillData)) \<and>
         underFilled = length (filter (\<lambda>i. drawData ! i \<noteq> gray) (mask_pixels fillData)) \<and>
         filled + underFilled = length (mask_pixels fillData)"
proof -
  have "fill_loop fillData drawData 0 0 0 =
     (length (filter (\<lambda>i. drawData ! i = gray) (mask_pixels fillData)),
      length (filter (\<lambda>i. drawData ! i \<noteq> gray) (mask_pixels fillData)))"
    using fill_loop_count [of 0 drawData fillData 0 0] assms(1)
    by (simp add: mask_pixels_def conj_commute conj_left_commute)
  then have f: "filled = length (filter (\<lambda>i. drawData ! i = gray) (mask_pixels fillData))"
    and u: "underFilled = length (filter (\<lambda>i. drawData ! i \<noteq> gray) (mask_pixels fillData))"
    using assms(2) by simp_all
  have "length (mask_pixels fillData) =
      length (filter (\<lambda>i. drawData ! i = gray) (mask_pixels fillData)) +
      length (filter (\<lambda>i. drawData ! i \<noteq> gray) (mask_pixels fillData))"
    using length_filter_split [of "\<lambda>i. True" "mask_pixels fillData" "\<lambda>i. drawData ! i = gray"]
    by simp
  then show ?thesis using f u by simp
qed

theorem C3_witness:
  "length [170, 170, 170, 255, 0, 0, 0, 0, 170, 170, 170, 255 :: 8 word] =
     length [255, 255, 255, 255, 255, 255, 255, 255, 0, 0, 0, 0 :: 8 word] \<and>
   fill_loop [255, 255, 255, 255, 255, 255, 255, 255, 0, 0, 0, 0]
             [170, 170, 170, 255, 0, 0, 0, 0, 170, 170, 170, 255] 0 0 0 = (1, 1) \<and>
   mask_pixels [255, 255, 255, 255, 255, 255, 255, 255, 0, 0, 0, 0] = [0, 4]"
proof -
  have l: "length [170, 170, 170, 255, 0, 0, 0, 0, 170, 170, 170, 255 :: 8 word] =
     length [255, 255, 255, 255, 255, 255, 255, 255, 0, 0, 0, 0 :: 8 word]" by simp
  have r: "fill_loop [255, 255, 255, 255, 255, 255, 255, 255, 0, 0, 0, 0]
             [170, 170, 170, 255, 0, 0, 0, 0, 170, 170, 170, 255] 0 0 0 = (1, 1)"
    by code_simp
  have m: "mask_pixels [255, 255, 255, 255, 255, 255, 255, 255, 0, 0, 0, 0] = [0, 4]"
    by code_simp
  from C3_fill_underfill_partition [OF l r] l r m show ?thesis by simp
qed

section \<open>Properties of the state machine\<close>

lemma update_end_game_result:
  assumes "update_end_game env model = Some (Inr (model', eff))"
  shows "eff = None \<and>
         model' = model\<lparr>page := Game_over,
                        finalUrl := Some (dataURL env),
                        gameLength := now env - gameStart model,
                        pixelsFilled := fst (fill_loop (fillImageData env) (drawImageData env) 0 0 0),
                        pixelsOverfilled := overfill_loop (overfillImageData env) 0 0,
                        pixelsUnderFilled := snd (fill_loop (fillImageData env) (drawImageData env) 0 0 0)\<rparr>"
  using assms
  by (simp add: update_end_game_def Let_def split: option.splits sum.splits prod.splits)

lemma update_buffer_bound:
  assumes "update env msg model = Some (Inr (model', eff))"
    and "length (drawPointBuffer model) \<le> 5"
  shows "length (drawPointBuffer model') \<le> 5"
proof (cases msg)
  case Start_game
  then show ?thesis using assms
    by (auto simp add: update_start_game_def Let_def split: option.splits sum.splits prod.splits)
next
  case End_game
  then show ?thesis using assms update_end_game_result [of env model model' eff] by auto
next
  case (Canvas_mounted kind el)
  then show ?thesis using assms
    by (auto simp add: update_canvas_mounted_def Let_def split: Canvas_kind.splits)
next
  case Canvas_render
  then show ?thesis using assms by auto
next
  case (Canvas_draw wx wy)
  then show ?thesis using assms
    by (auto simp add: update_canvas_draw_def Let_def split: option.splits prod.splits if_splits)
next
  case Canvas_draw_end
  then show ?thesis using assms
    by (auto simp add: update_canvas_draw_end_def Let_def split: option.splits if_splits)
next
  case (Window_resize w h)
  then show ?thesis using assms
    by (auto simp add: update_window_resize_def Let_def split: option.splits sum.splits prod.splits if_splits)
next
  case Home_carousel_tick
  then show ?thesis using assms
    by (auto simp add: update_home_carousel_tick_def Let_def split: option.splits sum.splits prod.splits)
next
  case Game_tick
  then show ?thesis using assms by auto
next
  case Open_score_explainer
  then show ?thesis using assms by auto
next
  case Dismiss_score_explainer
  then show ?thesis using assms by auto
qed

lemma reachable_buffer_bound: "reachable model \<Longrightarrow> length (drawPointBuffer model) \<le> 5"
proof (induction rule: reachable.induct)
  case (reachable_init offscreen)
  then show ?case by (simp add: init_def)
next
  case (reachable_step model env msg model' eff)
  then show ?case using update_buffer_bound by blast
qed

lemma run_reachable:
  "reachable model \<Longrightarrow> run env msgs model = Some model' \<Longrightarrow> reachable model'"
proof (induction msgs arbitrary: model)
  case Nil
  then show ?case by simp
next
  case (Cons msg msgs)
  then obtain m1 eff where u: "update env msg model = Some (Inr (m1, eff))"
    and r: "run env msgs m1 = Some model'"
    by (auto split: option.splits sum.splits)
  have "reachable m1" using Cons.prems(1) u by (rule reachable_step)
  then show ?case using Cons.IH r by blast
qed

lemma example_run:
  "run example_env example_msgs (init (CanvasElement 0)) = Some example_model"
  by (simp add: example_msgs_def example_env_def init_def update_window_resize_def
      update_canvas_mounted_def update_start_game_def update_canvas_draw_def example_model_def
      makeRandomShape_example [unfolded example_viewPort_def] Let_def)

lemma example_run_no_context:
  "run example_env_no_context example_msgs (init (CanvasElement 0)) = Some example_model_no_context"
  by (simp add: example_msgs_def example_env_no_context_def example_env_def init_def update_window_resize_def
      update_canvas_mounted_def update_start_game_def update_canvas_draw_def example_model_def
      example_model_no_context_def
      makeRandomShape_example [unfolded example_viewPort_def] Let_def)

lemma example_reachable: "reachable example_model"
  using run_reachable [OF reachable_init example_run] .

lemma example_reachable_no_context: "reachable example_model_no_context"
  using run_reachable [OF reachable_init example_run_no_context] .

lemma example_overfill_loop: "overfill_loop (overfillImageData example_env) 0 0 = 1"
  by code_simp

lemma example_fill_loop: "fill_loop (fillImageData example_env) (drawImageData example_env) 0 0 0 = (2, 0)"
  by code_simp

lemma example_end_game:
  "update example_env End_game example_model =
     Some (Inr (example_model\<lparr>page := Game_over, finalUrl := Some ''data:image/png;base64,'',
                  gameLength := 0, pixelsFilled := 2, pixelsOverfilled := 1,
                  pixelsUnderFilled := 0\<rparr>, None))"
  using example_overfill_loop example_fill_loop
  by (simp add: update_end_game_def example_model_def example_shape_def example_env_def
      drawShapeToCanvas_def Let_def)

lemma drawPoints_nonempty:
  "pts \<noteq> [] \<Longrightarrow> \<exists>calls. drawPoints ctx lineWidth pts = Inr calls"
  by (cases pts) (simp_all add: drawPoints_def Let_def)

lemma draw_effect_nonempty:
  "pts \<noteq> [] \<Longrightarrow> \<exists>calls. draw_effect ctx viewSize pts = Inr calls"
  using drawPoints_nonempty [of pts ctx "2 * getLineWidthForCanvasSize viewSize"]
  by (auto simp add: draw_effect_def Let_def)

text \<open>
  Claim C2. The score computed at game over, and the one \<^verbatim>\<open>view\<close> shows from the model
  that \<^verbatim>\<open>end_game\<close> returns, is
  \<open>(100 * pixelsFilled - pixelsOverfilled) / (pixelsFilled + pixelsUnderFilled)\<close>; for
  the counters 100, 50 and 0 it is \<open>(10000 - 50) / 100 = 99.5\<close>.
\<close>

theorem C2_final_score:
  "(update env End_game model = Some (Inr (model', eff)) \<longrightarrow>
      view_score model' = end_game_score env \<and>
      end_game_score env =
        js_div (100 * real (pixelsFilled model') - real (pixelsOverfilled model'))
               (real (pixelsFilled model') + real (pixelsUnderFilled model')) \<and>
      (pixelsFilled model' + pixelsUnderFilled model' \<noteq> 0 \<longrightarrow>
         end_game_score env =
           Finite ((100 * real (pixelsFilled model') - real (pixelsOverfilled model')) /
                   (real (pixelsFilled model') + real (pixelsUnderFilled model'))))) \<and>
   score 100 50 0 = Finite ((10000 - 50) / 100) \<and>
   score 100 50 0 = Finite (995 / 10)"
proof -
  have "score 100 50 0 = Finite (995 / 10)"
    by (simp add: score_def js_div_def)
  moreover have "update env End_game model = Some (Inr (model', eff)) \<Longrightarrow>
      view_score model' = end_game_score env \<and>
      end_game_score env =
        js_div (100 * real (pixelsFilled model') - real (pixelsOverfilled model'))
               (real (pixelsFilled model') + real (pixelsUnderFilled model')) \<and>
      (pixelsFilled model' + pixelsUnderFilled model' \<noteq> 0 \<longrightarrow>
         end_game_score env =
           Finite ((100 * real (pixelsFilled model') - real (pixelsOverfilled model')) /
                   (real (pixelsFilled model') + real (pixelsUnderFilled model'))))"
  proof -
    assume "update env End_game model = Some (Inr (model', eff))"
    then have m: "model' = model\<lparr>page := Game_over,
                        finalUrl := Some (dataURL env),
                        gameLength := now env - gameStart model,
                        pixelsFilled := fst (fill_loop (fillImageData env) (drawImageData env) 0 0 0),
                        pixelsOverfilled := overfill_loop (overfillImageData env) 0 0,
                        pixelsUnderFilled := snd (fill_loop (fillImageData env) (drawImageData env) 0 0 0)\<rparr>"
      using update_end_game_result [of env model model' eff] by simp
    show ?thesis
      by (simp add: m view_score_def end_game_score_def score_def js_div_def Let_def
          split: prod.splits)
  qed
  moreover have "score 100 50 0 = Finite ((10000 - 50) / 100)"
    by (simp add: score_def js_div_def)
  ultimately show ?thesis by blast
qed

theorem C2_witness:
  "\<exists>model'. update example_env End_game example_model = Some (Inr (model', None)) \<and>
      pixelsFilled model' + pixelsUnderFilled model' \<noteq> 0 \<and>
      view_score model' = Finite (995 / 10) \<and>
      end_game_score example_env = Finite (995 / 10)"
proof -
  let ?m = "example_model\<lparr>page := Game_over, finalUrl := Some ''data:image/png;base64,'',
                  gameLength := 0, pixelsFilled := 2, pixelsOverfilled := 1,
                  pixelsUnderFilled := 0\<rparr>"
  have e: "update example_env End_game example_model = Some (Inr (?m, None))"
    by (rule example_end_game)
  have nz: "pixelsFilled ?m + pixelsUnderFilled ?m \<noteq> 0"
    by simp
  from C2_final_score [of example_env example_model ?m None] e nz
  have v: "view_score ?m = end_game_score example_env"
    and s: "end_game_score example_env =
           Finite ((100 * real (pixelsFilled ?m) - real (pixelsOverfilled ?m)) /
                   (real (pixelsFilled ?m) + real (pixelsUnderFilled ?m)))"
    by blast+
  have n: "(100 * real (pixelsFilled ?m) - real (pixelsOverfilled ?m)) /
                   (real (pixelsFilled ?m) + real (pixelsUnderFilled ?m)) = 995 / 10"
    by simp
  have "update example_env End_game example_model = Some (Inr (?m, None)) \<and>
      pixelsFilled ?m + pixelsUnderFilled ?m \<noteq> 0 \<and>
      view_score ?m = Finite (995 / 10) \<and>
      end_game_score example_env = Finite (995 / 10)"
    using e nz v s n by presburger
  then show ?thesis by (rule exI)
qed

text \<open>
  Claim C4 says that with a zero denominator the score is a sentinel such as 0%. The
  code has no such case: on the initial counters (all zero) the score is \<^verbatim>\<open>NaN\<close> and
  the view shows \<^verbatim>\<open>NaN%\<close>; with pixels coloured outside it is \<^verbatim>\<open>-Infinity\<close>.
\<close>

theorem C4_counterexample:
  "pixelsFilled (init (CanvasElement 0)) + pixelsUnderFilled (init (CanvasElement 0)) = 0 \<and>
   view_score (init (CanvasElement 0)) = NaN \<and>
   view_score_text (init (CanvasElement 0)) = Some ''NaN%'' \<and>
   score 0 0 0 = NaN \<and>
   score 0 7 0 = NegInfinity \<and>
   toFixed2 (score 0 7 0) = Some ''-Infinity''"
  by (simp add: init_def view_score_def view_score_text_def score_def js_div_def toFixed2_def)

text \<open>
  Claim C4, amended. When \<open>pixelsFilled + pixelsUnderFilled\<close> is zero, computing and
  printing the score does not raise, and no sentinel is put in its place: the score is
  \<^verbatim>\<open>NaN\<close> when \<open>pixelsOverfilled\<close> is zero and \<^verbatim>\<open>-Infinity\<close> otherwise, printed by
  \<^verbatim>\<open>toFixed(2)\<close> as \<^verbatim>\<open>NaN\<close> and \<^verbatim>\<open>-Infinity\<close>.
\<close>

theorem C4_zero_denominator:
  assumes "filled + underFilled = 0"
  shows "score filled overfilled underFilled = (if overfilled = 0 then NaN else NegInfinity) \<and>
         toFixed2 (score filled overfilled underFilled) =
           Some (if overfilled = 0 then ''NaN'' else ''-Infinity'')"
  using assms by (simp add: score_def js_div_def toFixed2_def)

theorem C4_witness:
  "(0::nat) + 0 = 0 \<and> score 0 3 0 = NegInfinity \<and> toFixed2 (score 0 3 0) = Some ''-Infinity''"
proof -
  have z: "(0::nat) + 0 = 0" by simp
  from C4_zero_denominator [OF z, of 3]
  have "score 0 3 0 = NegInfinity" and "toFixed2 (score 0 3 0) = Some ''-Infinity''"
    by (simp_all add: toFixed2_def)
  then show ?thesis by simp
qed

text \<open>
  Claim C8. On the game page a \<^verbatim>\<open>window_resize\<close> message returns the model as it is,
  with no effect: window size, canvas sizes, shape draw area and shape are unchanged.
\<close>

theorem C8_window_resize_during_game:
  assumes "page model = Game"
  shows "update env (Window_resize w h) model = Some (Inr (model, None))"
  using assms by (simp add: update_window_resize_def)

theorem C8_witness:
  "page example_model = Game \<and>
   update example_env (Window_resize 640 480) example_model = Some (Inr (example_model, None))"
proof -
  have p: "page example_model = Game" by (simp add: example_model_def)
  from C8_window_resize_during_game [OF p, of example_env 640 480] p show ?thesis by simp
qed


text \<open>
  Claim C9 is stated for every model on the game page. It fails where the background
  canvas has no 2D context, which \<^verbatim>\<open>update\<close> guards against: in this model, reached
  from the initial one, five points are buffered, and both \<^verbatim>\<open>canvas_draw\<close> and
  \<^verbatim>\<open>canvas_draw_end\<close> return the model as it is, drawing nothing and keeping the buffer.
  And where the background canvas is not mounted, \<^verbatim>\<open>canvas_draw\<close> raises on reading its
  bounding rectangle.
\<close>

theorem C9_counterexample:
  "reachable example_model_no_context \<and>
   page example_model_no_context = Game \<and>
   length (drawPointBuffer example_model_no_context) = 5 \<and>
   backgroundCanvasElement example_model_no_context = Some (CanvasElement 2) \<and>
   update example_env_no_context (Canvas_draw 35 35) example_model_no_context =
     Some (Inr (example_model_no_context, None)) \<and>
   update example_env_no_context Canvas_draw_end example_model_no_context =
     Some (Inr (example_model_no_context, None)) \<and>
   page (example_model\<lparr>backgroundCanvasElement := None\<rparr>) = Game \<and>
   update example_env (Canvas_draw 35 35) (example_model\<lparr>backgroundCanvasElement := None\<rparr>) =
     Some (Inl TypeError)"
  using example_reachable_no_context
  by (simp add: example_model_no_context_def example_model_def example_env_no_context_def
      example_env_def update_canvas_draw_def update_canvas_draw_end_def)

text \<open>
  Claim C9, amended. For every model on the game page whose background canvas is mounted
  and has a 2D context: a \<^verbatim>\<open>canvas_draw\<close> with fewer than 5 points buffered appends the
  new point and has no effect; with 5 points (or more) buffered it draws the buffered
  points followed by the new one and leaves exactly the new point in the buffer; a
  \<^verbatim>\<open>canvas_draw_end\<close> with a non-empty buffer draws the buffered points and empties the
  buffer. In every model the program can reach the buffer holds at most 5 points.
\<close>

theorem C9_stroke_buffer:
  "(page model = Game \<and> backgroundCanvasElement model = Some element \<and>
    backgroundCtx model = Some ctx \<and> boundingClientRect env element = (left, top') \<and>
    newPoint = \<lparr>px = (windowX - left) * devicePixelRatio env,
                 py = (windowY - top') * devicePixelRatio env\<rparr> \<longrightarrow>
      (length (drawPointBuffer model) < 5 \<longrightarrow>
         update env (Canvas_draw windowX windowY) model =
           Some (Inr (model\<lparr>drawPointBuffer := drawPointBuffer model @ [newPoint]\<rparr>, None))) \<and>
      (5 \<le> length (drawPointBuffer model) \<longrightarrow>
         update env (Canvas_draw windowX windowY) model =
           Some (Inr (model\<lparr>drawPointBuffer := [newPoint]\<rparr>,
                      Some (draw_effect ctx (canvasViewSize model) (drawPointBuffer model @ [newPoint])))) \<and>
         (\<exists>calls. draw_effect ctx (canvasViewSize model) (drawPointBuffer model @ [newPoint]) = Inr calls)) \<and>
      (drawPointBuffer model \<noteq> [] \<longrightarrow>
         update env Canvas_draw_end model =
           Some (Inr (model\<lparr>drawPointBuffer := []\<rparr>,
                      Some (draw_effect ctx (canvasViewSize model) (drawPointBuffer model)))) \<and>
         (\<exists>calls. draw_effect ctx (canvasViewSize model) (drawPointBuffer model) = Inr calls))) \<and>
   (reachable model \<longrightarrow> length (drawPointBuffer model) \<le> 5)"
proof -
  have "\<exists>calls. draw_effect ctx (canvasViewSize model) (drawPointBuffer model @ [newPoint]) = Inr calls"
    by (rule draw_effect_nonempty) simp
  moreover have "drawPointBuffer model \<noteq> [] \<Longrightarrow>
      \<exists>calls. draw_effect ctx (canvasViewSize model) (drawPointBuffer model) = Inr calls"
    by (rule draw_effect_nonempty)
  ultimately show ?thesis
    using reachable_buffer_bound [of model]
    by (auto simp add: update_canvas_draw_def update_canvas_draw_end_def Let_def)
qed


theorem C9_witness:
  "page example_model = Game \<and>
   backgroundCanvasElement example_model = Some (CanvasElement 2) \<and>
   backgroundCtx example_model = Some (Context2D (CanvasElement 2)) \<and>
   boundingClientRect example_env (CanvasElement 2) = (20, 20) \<and>
   reachable example_model \<and>
   length (drawPointBuffer example_model) = 5 \<and>
   update example_env (Canvas_draw 35 35) example_model =
     Some (Inr (example_model\<lparr>drawPointBuffer := [\<lparr>px = 15, py = 15\<rparr>]\<rparr>,
                Some (draw_effect (Context2D (CanvasElement 2)) (canvasViewSize example_model)
                        (drawPointBuffer example_model @ [\<lparr>px = 15, py = 15\<rparr>])))) \<and>
   update example_env Canvas_draw_end example_model =
     Some (Inr (example_model\<lparr>drawPointBuffer := []\<rparr>,
                Some (draw_effect (Context2D (CanvasElement 2)) (canvasViewSize example_model)
                        (drawPointBuffer example_model)))) \<and>
   length (drawPointBuffer (example_model\<lparr>drawPointBuffer := [\<lparr>px = 1, py = 2\<rparr>]\<rparr>)) < 5 \<and>
   update example_env (Canvas_draw 35 35) (example_model\<lparr>drawPointBuffer := [\<lparr>px = 1, py = 2\<rparr>]\<rparr>) =
     Some (Inr (example_model\<lparr>drawPointBuffer := [\<lparr>px = 1, py = 2\<rparr>, \<lparr>px = 15, py = 15\<rparr>]\<rparr>, None))"
proof -
  let ?new = "\<lparr>px = (35 - 20) * devicePixelRatio example_env,
               py = (35 - 20) * devicePixelRatio example_env\<rparr>"
  let ?m2 = "example_model\<lparr>drawPointBuffer := [\<lparr>px = 1, py = 2\<rparr>]\<rparr>"
  have new: "?new = \<lparr>px = 15, py = 15\<rparr>"
    by (simp add: example_env_def)
  have h: "page example_model = Game"
    "backgroundCanvasElement example_model = Some (CanvasElement 2)"
    "backgroundCtx example_model = Some (Context2D (CanvasElement 2))"
    "length (drawPointBuffer example_model) = 5"
    "drawPointBuffer example_model \<noteq> []"
    by (simp_all add: example_model_def)
  have h2: "page ?m2 = Game"
    "backgroundCanvasElement ?m2 = Some (CanvasElement 2)"
    "backgroundCtx ?m2 = Some (Context2D (CanvasElement 2))"
    "length (drawPointBuffer ?m2) < 5"
    by (simp_all add: example_model_def)
  have b: "boundingClientRect example_env (CanvasElement 2) = (20, 20)"
    by (simp add: example_env_def)
  note t1 = C9_stroke_buffer [of example_model "CanvasElement 2" "Context2D (CanvasElement 2)"
      example_env 20 20 ?new 35 35]
  note t2 = C9_stroke_buffer [of ?m2 "CanvasElement 2" "Context2D (CanvasElement 2)"
      example_env 20 20 ?new 35 35]
  have a1: "update example_env (Canvas_draw 35 35) example_model =
     Some (Inr (example_model\<lparr>drawPointBuffer := [?new]\<rparr>,
                Some (draw_effect (Context2D (CanvasElement 2)) (canvasViewSize example_model)
                        (drawPointBuffer example_model @ [?new]))))"
    using t1 h b by simp
  have a2: "update example_env Canvas_draw_end example_model =
     Some (Inr (example_model\<lparr>drawPointBuffer := []\<rparr>,
                Some (draw_effect (Context2D (CanvasElement 2)) (canvasViewSize example_model)
                        (drawPointBuffer example_model))))"
    using t1 h b by simp
  have a3: "update example_env (Canvas_draw 35 35) ?m2 =
     Some (Inr (?m2\<lparr>drawPointBuffer := drawPointBuffer ?m2 @ [?new]\<rparr>, None))"
    using t2 h2 b by simp
  show ?thesis
    using h h2 b example_reachable a1 a2 a3 unfolding new by simp
qed

text \<open>
  Claim C10. \<^verbatim>\<open>drawPoints\<close> reads \<^verbatim>\<open>points[0]\<close> in its branch for fewer than 3 points, so
  it raises on an empty array and on no other; the state machine never calls it so:
  \<^verbatim>\<open>canvas_draw\<close> draws 6 points (the 5 buffered and the new one), and
  \<^verbatim>\<open>canvas_draw_end\<close> returns without an effect when the buffer is empty.
\<close>

theorem C10_drawPoints_never_empty:
  "drawPoints ctx lineWidth ([] :: Point list) = Inl TypeError \<and>
   (pts \<noteq> [] \<longrightarrow> (\<exists>calls. drawPoints ctx lineWidth (pts :: Point list) = Inr calls)) \<and>
   (reachable model \<and> update env (Canvas_draw windowX windowY) model = Some (Inr (model', Some eff)) \<longrightarrow>
      (\<exists>c drawn calls. eff = draw_effect c (canvasViewSize model) drawn \<and> length drawn = 6 \<and>
         eff = Inr calls)) \<and>
   (update env Canvas_draw_end model = Some (Inr (model', Some eff)) \<longrightarrow>
      drawPointBuffer model \<noteq> [] \<and>
      (\<exists>c calls. eff = draw_effect c (canvasViewSize model) (drawPointBuffer model) \<and>
         eff = Inr calls)) \<and>
   (drawPointBuffer model = [] \<longrightarrow> update env Canvas_draw_end model = Some (Inr (model, None)))"
proof -
  have 1: "drawPoints ctx lineWidth ([] :: Point list) = Inl TypeError"
    by (simp add: drawPoints_def)
  have 2: "pts \<noteq> [] \<longrightarrow> (\<exists>calls. drawPoints ctx lineWidth pts = Inr calls)"
    using drawPoints_nonempty [of pts ctx lineWidth] by blast
  have 3: "\<exists>c drawn calls. eff = draw_effect c (canvasViewSize model) drawn \<and> length drawn = 6 \<and>
         eff = Inr calls"
    if r: "reachable model"
      and u: "update env (Canvas_draw windowX windowY) model = Some (Inr (model', Some eff))"
  proof -
    have le: "length (drawPointBuffer model) \<le> 5"
      using r by (rule reachable_buffer_bound)
    from u obtain c p where e: "eff = draw_effect c (canvasViewSize model) (drawPointBuffer model @ [p])"
      and ge: "\<not> length (drawPointBuffer model) < 5"
      by (auto simp add: update_canvas_draw_def Let_def split: option.splits prod.splits if_splits)
    have "length (drawPointBuffer model @ [p]) = 6" using le ge by simp
    moreover obtain calls where "draw_effect c (canvasViewSize model) (drawPointBuffer model @ [p]) = Inr calls"
      using draw_effect_nonempty [of "drawPointBuffer model @ [p]" c "canvasViewSize model"] by auto
    ultimately show ?thesis using e by blast
  qed
  have 4: "drawPointBuffer model \<noteq> [] \<and>
      (\<exists>c calls. eff = draw_effect c (canvasViewSize model) (drawPointBuffer model) \<and> eff = Inr calls)"
    if u: "update env Canvas_draw_end model = Some (Inr (model', Some eff))"
  proof -
    from u obtain c where e: "eff = draw_effect c (canvasViewSize model) (drawPointBuffer model)"
      and ne: "drawPointBuffer model \<noteq> []"
      by (auto simp add: update_canvas_draw_end_def Let_def split: option.splits if_splits)
    obtain calls where "draw_effect c (canvasViewSize model) (drawPointBuffer model) = Inr calls"
      using draw_effect_nonempty [OF ne, of c "canvasViewSize model"] by auto
    then show ?thesis using e ne by blast
  qed
  have 5: "drawPointBuffer model = [] \<longrightarrow> update env Canvas_draw_end model = Some (Inr (model, None))"
    by (simp add: update_canvas_draw_end_def)
  show ?thesis using 1 2 3 4 5 by blast
qed

theorem C10_witness:
  "reachable example_model \<and>
   (\<exists>eff c drawn calls.
      update example_env (Canvas_draw 35 35) example_model =
        Some (Inr (example_model\<lparr>drawPointBuffer := [\<lparr>px = 15, py = 15\<rparr>]\<rparr>, Some eff)) \<and>
      eff = draw_effect c (canvasViewSize example_model) drawn \<and> length drawn = 6 \<and> eff = Inr calls) \<and>
   (\<exists>eff calls.
      update example_env Canvas_draw_end example_model =
        Some (Inr (example_model\<lparr>drawPointBuffer := []\<rparr>, Some eff)) \<and>
      drawPointBuffer example_model \<noteq> [] \<and> eff = Inr calls) \<and>
   drawPointBuffer (example_model\<lparr>drawPointBuffer := []\<rparr>) = [] \<and>
   update example_env Canvas_draw_end (example_model\<lparr>drawPointBuffer := []\<rparr>) =
     Some (Inr (example_model\<lparr>drawPointBuffer := []\<rparr>, None)) \<and>
   [\<lparr>px = 1, py = 2\<rparr>] \<noteq> [] \<and>
   (\<exists>calls. drawPoints (Context2D (CanvasElement 2)) 20 [\<lparr>px = 1, py = 2\<rparr>] = Inr calls)"
proof -
  let ?e1 = "draw_effect (Context2D (CanvasElement 2)) (canvasViewSize example_model)
               (drawPointBuffer example_model @ [\<lparr>px = 15, py = 15\<rparr>])"
  let ?e2 = "draw_effect (Context2D (CanvasElement 2)) (canvasViewSize example_model)
               (drawPointBuffer example_model)"
  let ?m1 = "example_model\<lparr>drawPointBuffer := [\<lparr>px = 15, py = 15\<rparr>]\<rparr>"
  let ?m0 = "example_model\<lparr>drawPointBuffer := []\<rparr>"
  have u1: "update example_env (Canvas_draw 35 35) example_model = Some (Inr (?m1, Some ?e1))"
    by (simp add: update_canvas_draw_def example_model_def example_env_def Let_def)
  have u2: "update example_env Canvas_draw_end example_model = Some (Inr (?m0, Some ?e2))"
    by (simp add: update_canvas_draw_end_def example_model_def)
  have e0: "drawPointBuffer ?m0 = []" by simp
  have ne: "[\<lparr>px = 1, py = 2\<rparr>] \<noteq> []" by simp
  note t1 = C10_drawPoints_never_empty [of "Context2D (CanvasElement 2)" 20 "[\<lparr>px = 1, py = 2\<rparr>]"
      example_model example_env 35 35 ?m1 ?e1]
  note t2 = C10_drawPoints_never_empty [of "Context2D (CanvasElement 2)" 20 "[\<lparr>px = 1, py = 2\<rparr>]"
      example_model example_env 35 35 ?m0 ?e2]
  note t3 = C10_drawPoints_never_empty [of "Context2D (CanvasElement 2)" 20 "[\<lparr>px = 1, py = 2\<rparr>]"
      ?m0 example_env 35 35 ?m0 ?e2]
  have c1: "\<exists>c drawn calls. ?e1 = draw_effect c (canvasViewSize example_model) drawn \<and>
              length drawn = 6 \<and> ?e1 = Inr calls"
    using t1 example_reachable u1 by blast
  have c2: "drawPointBuffer example_model \<noteq> [] \<and> (\<exists>calls. ?e2 = Inr calls)"
    using t2 u2 by blast
  have c3: "update example_env Canvas_draw_end ?m0 = Some (Inr (?m0, None))"
    using t3 e0 by blast
  have c4: "\<exists>calls. drawPoints (Context2D (CanvasElement 2)) 20 [\<lparr>px = 1, py = 2\<rparr>] = Inr calls"
    using t1 ne by blast
  show ?thesis
    using example_reachable u1 u2 c1 c2 c3 c4 e0 ne by blast
qed

end
